theory Spec2Isabelle
  imports Complex_Main "HOL-Library.AList" "HOL-Library.Word" "HOL-Library.List_Lexorder"
    "HOL-Library.Char_ord"
begin

unbundle bit_operations_syntax

section \<open>Data model\<close>

text \<open>
  Values of type \<open>any\<close> that come out of \<open>JSON.parse\<close>. A number is represented by the
  text that \<open>JSON.stringify\<close> and \<open>String\<close> print for it (\<open>0\<close>, \<open>5\<close>, \<open>-1.5\<close>,
  \<open>1e+21\<close>): two numbers are equal exactly when these texts are equal, and the number is
  zero exactly when its text is \<open>0\<close>. A string is a list of characters, one per UTF-16 code
  unit of the JavaScript string.
\<close>

datatype json =
    JNull
  | JBool bool
  | JNum string
  | JStr string
  | JArr "json list"
  | JObj "(string \<times> json) list"

text \<open>
  \<open>RawBlock\<close> of \<open>types.ts\<close>. An optional field that is absent or \<open>null\<close> is \<open>None\<close>.
  An object (\<open>Record<string, _>\<close>) is an association list in the order of \<open>Object.keys\<close>.
\<close>

record RawBlock =
  opcode :: string
  "next" :: "string option"
  parent :: "string option"
  inputs :: "(string \<times> json) list"
  fields' :: "(string \<times> json) list"
  shadow :: bool
  topLevel :: bool
  mutation :: "json option"

text \<open>\<open>BlockText\<close> and \<open>ScriptText\<close> of \<open>types.ts\<close>.\<close>

record BlockText =
  bt_text :: string
  bt_fingerprint :: string
  bt_depth :: int
  bt_original :: RawBlock

record ScriptText =
  "text" :: string
  fingerprint :: string
  st_blocks :: "BlockText list"
  st_original :: "(string \<times> RawBlock) list"
  topId :: string

text \<open>
  A target of \<open>project.json\<close> (\<open>RawTarget\<close>), with the fields that parsing, diffing and
  replay read: its name, its block map and its keyed collections. The other fields
  (broadcasts, comments, volume, position and so on) are carried along unchanged by the
  program and are left out.
\<close>

record RawTarget =
  t_isStage :: bool
  t_name :: string
  t_variables :: "(string \<times> json) list"
  t_lists :: "(string \<times> json) list"
  t_blocks :: "(string \<times> RawBlock) list"
  t_costumes :: "json list"
  t_sounds :: "json list"

section \<open>Line diff (\<open>myersDiff\<close>, \<open>reconstructEditScript\<close>, \<open>diffText\<close>; text-diff.ts)\<close>

text \<open>
  The values that the variables \<open>x\<close>, \<open>y\<close> and the entries of the maps \<open>V\<close> and \<open>trace\<close>
  take at run time. \<open>Map.get\<close> on an absent key gives \<open>undefined\<close> (the non-null assertion
  \<open>!\<close> is erased by the compiler); arithmetic on \<open>undefined\<close> gives \<open>NaN\<close>; every comparison
  with \<open>undefined\<close> or \<open>NaN\<close> is false.
\<close>

datatype jsnum = Undefined | NaN | Num int

fun js_plus :: "jsnum \<Rightarrow> int \<Rightarrow> jsnum" where
  "js_plus (Num n) i = Num (n + i)"
| "js_plus _ i = NaN"

fun js_minus :: "jsnum \<Rightarrow> int \<Rightarrow> jsnum" where
  "js_minus (Num n) i = Num (n - i)"
| "js_minus _ i = NaN"

fun js_less :: "jsnum \<Rightarrow> jsnum \<Rightarrow> bool" where
  "js_less (Num a) (Num b) \<longleftrightarrow> a < b"
| "js_less _ _ \<longleftrightarrow> False"

fun js_ge :: "jsnum \<Rightarrow> jsnum \<Rightarrow> bool" where
  "js_ge (Num a) (Num b) \<longleftrightarrow> a \<ge> b"
| "js_ge _ _ \<longleftrightarrow> False"

text \<open>\<open>Map<number, number>\<close>; \<open>mget\<close> is \<open>Map.get\<close>.\<close>

type_synonym nummap = "int \<rightharpoonup> jsnum"

definition mget :: "nummap \<Rightarrow> int \<Rightarrow> jsnum" where
  "mget V k = (case V k of None \<Rightarrow> Undefined | Some v \<Rightarrow> v)"

text \<open>Indexing an array: \<open>undefined\<close> (\<open>None\<close>) outside the array.\<close>

definition js_index :: "'a list \<Rightarrow> int \<Rightarrow> 'a option" where
  "js_index xs i = (if 0 \<le> i \<and> i < int (length xs) then Some (xs ! nat i) else None)"

datatype change_type = Add | Remove | Keep

record change =
  ctype :: change_type
  line :: "string option"

datatype js_error = TypeError | RangeError

text \<open>The loop \<open>while (x < N && y < M && a[x] === b[y]) { x++; y++; }\<close> on numbers.\<close>

function slide :: "string list \<Rightarrow> string list \<Rightarrow> int \<Rightarrow> int \<Rightarrow> int \<times> int" where
  "slide a b x y =
     (if x < int (length a) \<and> y < int (length b) \<and> js_index a x = js_index b y
      then slide a b (x + 1) (y + 1) else (x, y))"
  by pat_completeness auto
termination
  by (relation "measure (\<lambda>(a, b, x, y). nat (int (length a) - x))") auto

text \<open>The same loop on run-time values: the condition is false unless both are numbers.\<close>

fun slide_js :: "string list \<Rightarrow> string list \<Rightarrow> jsnum \<Rightarrow> jsnum \<Rightarrow> jsnum \<times> jsnum" where
  "slide_js a b (Num x) (Num y) = (case slide a b x y of (x', y') \<Rightarrow> (Num x', Num y'))"
| "slide_js a b x y = (x, y)"

text \<open>
  \<open>reconstructEditScript\<close>. \<open>backdiag\<close> is the loop
  \<open>while (x > prevX && y > prevY) { x--; y--; script.unshift(keep a[x]) }\<close>.
\<close>

function backdiag ::
  "string list \<Rightarrow> int \<Rightarrow> int \<Rightarrow> jsnum \<Rightarrow> jsnum \<Rightarrow> change list \<Rightarrow> int \<times> int \<times> change list"
where
  "backdiag a x y prevX prevY script =
     (if js_less prevX (Num x) \<and> js_less prevY (Num y)
      then backdiag a (x - 1) (y - 1) prevX prevY
             (\<lparr> ctype = Keep, line = js_index a (x - 1) \<rparr> # script)
      else (x, y, script))"
  by pat_completeness auto
termination
  by (relation "measure (\<lambda>(a, x, y, prevX, prevY, script).
        (case prevX of Num p \<Rightarrow> nat (x - p) | _ \<Rightarrow> 0))")
     (auto split: jsnum.splits)

function rloop ::
  "string list \<Rightarrow> string list \<Rightarrow> (int \<rightharpoonup> nummap) \<Rightarrow> int \<Rightarrow> int \<Rightarrow> int \<Rightarrow> change list
   \<Rightarrow> js_error + change list"
where
  "rloop a b trace d x y script =
     (if d \<ge> 0 then
        (case trace d of
           None \<Rightarrow> Inl TypeError
         | Some t \<Rightarrow>
            (let k = x - y;
                 prevK = (if t (k - 1) \<noteq> None then k - 1 else k + 1);
                 prevX = mget t prevK;
                 prevY = js_minus prevX prevK
             in (case backdiag a x y prevX prevY script of
                  (x1, y1, s1) \<Rightarrow>
                    (case (if js_less prevX (Num x1)
                           then (x1 - 1, y1, \<lparr> ctype = Remove, line = js_index a (x1 - 1) \<rparr> # s1)
                           else if js_less prevY (Num y1)
                           then (x1, y1 - 1, \<lparr> ctype = Add, line = js_index b (y1 - 1) \<rparr> # s1)
                           else (x1, y1, s1)) of
                       (x2, y2, s2) \<Rightarrow>
                         if x2 = 0 \<and> y2 = 0 then Inr s2
                         else rloop a b trace (d - 1) x2 y2 s2))))
      else Inr script)"
  by pat_completeness auto
termination
  by (relation "measure (\<lambda>(a, b, trace, d, x, y, script). nat (d + 1))") auto

definition reconstructEditScript ::
  "string list \<Rightarrow> string list \<Rightarrow> (int \<rightharpoonup> nummap) \<Rightarrow> int \<Rightarrow> int \<Rightarrow> int \<Rightarrow> js_error + change list"
where
  "reconstructEditScript a b trace N M MAX' = rloop a b trace MAX' N M []"

text \<open>
  \<open>myersDiff\<close>. \<open>kstep\<close> is the body of the inner loop up to the two map updates and gives
  (x, y, V, trace); \<open>kloop\<close> is the inner loop \<open>for (let k = -d; k <= d; k += 2)\<close> from a
  given \<open>k\<close>, \<open>dloop\<close> the outer loop \<open>for (let d = 0; d <= MAX; d++)\<close> from a given \<open>d\<close>.
  \<open>Inl\<close> of a loop is the value returned from inside the loop.
\<close>

definition kstep ::
  "string list \<Rightarrow> string list \<Rightarrow> int \<Rightarrow> int \<Rightarrow> nummap \<Rightarrow> (int \<rightharpoonup> nummap)
   \<Rightarrow> jsnum \<times> jsnum \<times> nummap \<times> (int \<rightharpoonup> nummap)"
where
  "kstep a b d k V trace =
     (let down = (k = - d \<or> (k \<noteq> d \<and> js_less (mget V (k - 1)) (mget V (k + 1))));
          x0 = (if down then mget V (k + 1) else js_plus (mget V (k - 1)) 1);
          y0 = js_minus x0 k
      in (case slide_js a b x0 y0 of
            (x, y) \<Rightarrow>
              (x, y, V(k \<mapsto> x),
               trace(d \<mapsto> (case trace d of None \<Rightarrow> Map.empty | Some t \<Rightarrow> t)(k \<mapsto> x)))))"

function kloop ::
  "string list \<Rightarrow> string list \<Rightarrow> int \<Rightarrow> int \<Rightarrow> nummap \<Rightarrow> (int \<rightharpoonup> nummap)
   \<Rightarrow> (js_error + change list) + nummap \<times> (int \<rightharpoonup> nummap)"
where
  "kloop a b d k V trace =
     (if k \<le> d then
        (case kstep a b d k V trace of
           (x, y, V', trace') \<Rightarrow>
             if js_ge x (Num (int (length a))) \<and> js_ge y (Num (int (length b)))
             then Inl (reconstructEditScript a b trace' (int (length a)) (int (length b))
                         (int (length a) + int (length b)))
             else kloop a b d (k + 2) V' trace')
      else Inr (V, trace))"
  by pat_completeness auto
termination
  by (relation "measure (\<lambda>(a, b, d, k, V, trace). nat (d + 1 - k))") auto

function dloop ::
  "string list \<Rightarrow> string list \<Rightarrow> int \<Rightarrow> nummap \<Rightarrow> (int \<rightharpoonup> nummap) \<Rightarrow> js_error + change list"
where
  "dloop a b d V trace =
     (if d \<le> int (length a) + int (length b) then
        (case kloop a b d (- d) V trace of
           Inl r \<Rightarrow> r
         | Inr (V', trace') \<Rightarrow> dloop a b (d + 1) V' trace')
      else Inr [])"
  by pat_completeness auto
termination
  by (relation "measure (\<lambda>(a, b, d, V, trace). nat (int (length a) + int (length b) + 1 - d))")
     auto

declare slide.simps [simp del] backdiag.simps [simp del] rloop.simps [simp del]
  kloop.simps [simp del] dloop.simps [simp del]

definition myersDiff :: "string list \<Rightarrow> string list \<Rightarrow> js_error + change list" where
  "myersDiff a b = dloop a b 0 (Map.empty(0 \<mapsto> Num 0)) Map.empty"

text \<open>\<open>String.prototype.split('\n')\<close>: always at least one line.\<close>

fun split_lines_acc :: "string \<Rightarrow> string \<Rightarrow> string list" where
  "split_lines_acc cur [] = [rev cur]"
| "split_lines_acc cur (c # cs) =
     (if c = CHR 0x0A then rev cur # split_lines_acc [] cs else split_lines_acc (c # cur) cs)"

definition split_lines :: "string \<Rightarrow> string list" where
  "split_lines s = split_lines_acc [] s"

record TextDiffResult =
  added :: nat
  removed :: nat
  changes :: "change list"

definition diffText :: "string \<Rightarrow> string \<Rightarrow> js_error + TextDiffResult" where
  "diffText oldText newText =
     (case myersDiff (split_lines oldText) (split_lines newText) of
        Inl e \<Rightarrow> Inl e
      | Inr cs \<Rightarrow>
          Inr \<lparr> added = length (filter (\<lambda>c. ctype c = Add) cs),
                removed = length (filter (\<lambda>c. ctype c = Remove) cs),
                changes = cs \<rparr>)"

text \<open>The number of \<open>keep\<close> operations of a line-diff result.\<close>

definition kept :: "TextDiffResult \<Rightarrow> nat" where
  "kept r = length (filter (\<lambda>c. ctype c = Keep) (changes r))"

text \<open>A map none of whose entries is a number.\<close>

definition noNum :: "nummap \<Rightarrow> bool" where
  "noNum V \<longleftrightarrow> (\<forall>k n. V k \<noteq> Some (Num n))"

section \<open>JavaScript values: truthiness, \<open>JSON.stringify\<close>\<close>

text \<open>
  The value of \<open>v.k\<close> for a parsed JSON value \<open>v\<close> and a key \<open>k\<close> that is not a built-in
  property of strings and arrays: reading a property of \<open>null\<close> raises a \<open>TypeError\<close>; an
  object gives the value stored under the key or \<open>undefined\<close> (\<open>None\<close>); every other value
  gives \<open>undefined\<close>.
\<close>

fun getProp :: "json \<Rightarrow> string \<Rightarrow> js_error + json option" where
  "getProp JNull k = Inl TypeError"
| "getProp (JObj kvs) k = Inr (map_of kvs k)"
| "getProp _ k = Inr None"

text \<open>
  Strict equality (and the key equality of a \<open>Map\<close>) of two separately parsed values:
  primitives are equal by value; an array or an object is equal to no value parsed
  elsewhere, since equality of objects is identity.
\<close>

fun js_same :: "json \<Rightarrow> json \<Rightarrow> bool" where
  "js_same (JArr xs) b \<longleftrightarrow> False"
| "js_same (JObj kvs) b \<longleftrightarrow> False"
| "js_same a b \<longleftrightarrow> a = b"

fun js_same_opt :: "json option \<Rightarrow> json option \<Rightarrow> bool" where
  "js_same_opt None None \<longleftrightarrow> True"
| "js_same_opt (Some a) (Some b) \<longleftrightarrow> js_same a b"
| "js_same_opt _ _ \<longleftrightarrow> False"

text \<open>Truthiness of a possibly undefined value, as tested by \<open>||\<close>, \<open>&&\<close> and \<open>if\<close>.\<close>

fun truthy :: "json option \<Rightarrow> bool" where
  "truthy None \<longleftrightarrow> False"
| "truthy (Some JNull) \<longleftrightarrow> False"
| "truthy (Some (JBool b)) \<longleftrightarrow> b"
| "truthy (Some (JNum n)) \<longleftrightarrow> n \<noteq> ''0''"
| "truthy (Some (JStr s)) \<longleftrightarrow> s \<noteq> []"
| "truthy (Some (JArr xs)) \<longleftrightarrow> True"
| "truthy (Some (JObj kvs)) \<longleftrightarrow> True"

text \<open>\<open>a || b\<close> on possibly undefined values.\<close>

definition js_or :: "json option \<Rightarrow> json option \<Rightarrow> json option" where
  "js_or a b = (if truthy a then a else b)"

text \<open>Decimal digits of a number, as \<open>JSON.stringify\<close> and \<open>String\<close> print an integer.\<close>

definition digit_char :: "nat \<Rightarrow> char" where
  "digit_char d = char_of (48 + d)"

fun show_nat :: "nat \<Rightarrow> string" where
  "show_nat n = (if n < 10 then [digit_char n] else show_nat (n div 10) @ [digit_char (n mod 10)])"

declare show_nat.simps [simp del]

definition hex_char :: "nat \<Rightarrow> char" where
  "hex_char d = (if d < 10 then char_of (48 + d) else char_of (87 + d))"

text \<open>
  A string literal of \<open>JSON.stringify\<close>: quotes and backslashes are escaped, control
  characters are written as their short escape or as \<open>\u00XX\<close>.
\<close>

definition escape_char :: "char \<Rightarrow> string" where
  "escape_char c =
     (if c = CHR 0x22 then [CHR 0x5C, CHR 0x22]
      else if c = CHR 0x5C then [CHR 0x5C, CHR 0x5C]
      else if c = CHR 0x08 then [CHR 0x5C, CHR ''b'']
      else if c = CHR 0x09 then [CHR 0x5C, CHR ''t'']
      else if c = CHR 0x0A then [CHR 0x5C, CHR ''n'']
      else if c = CHR 0x0C then [CHR 0x5C, CHR ''f'']
      else if c = CHR 0x0D then [CHR 0x5C, CHR ''r'']
      else if of_char c < (32 :: nat)
        then [CHR 0x5C, CHR ''u'', CHR ''0'', CHR ''0'',
              hex_char (of_char c div 16), hex_char (of_char c mod 16)]
      else [c])"

definition quote :: "string \<Rightarrow> string" where
  "quote s = CHR 0x22 # concat (map escape_char s) @ [CHR 0x22]"

text \<open>\<open>Array.prototype.join\<close> on strings.\<close>

fun join :: "string \<Rightarrow> string list \<Rightarrow> string" where
  "join sep [] = []"
| "join sep [x] = x"
| "join sep (x # y # ys) = x @ sep @ join sep (y # ys)"

text \<open>\<open>JSON.stringify(v)\<close> without indentation, for a parsed JSON value.\<close>

fun stringify :: "json \<Rightarrow> string" where
  "stringify JNull = ''null''"
| "stringify (JBool b) = (if b then ''true'' else ''false'')"
| "stringify (JNum n) = n"
| "stringify (JStr s) = quote s"
| "stringify (JArr xs) = ''['' @ join '','' (map stringify xs) @ '']''"
| "stringify (JObj kvs) =
     ''{'' @ join '','' (map (\<lambda>kv. quote (fst kv) @ '':'' @ stringify (snd kv)) kvs) @ ''}''"

text \<open>\<open>JSON.stringify\<close> of a possibly undefined value: \<open>undefined\<close> gives \<open>undefined\<close>.\<close>

definition stringify_opt :: "json option \<Rightarrow> string option" where
  "stringify_opt v = map_option stringify v"

section \<open>Script reconstruction (\<open>ProjectParser.reconstructScript\<close>, parser.ts)\<close>

text \<open>
  The loop variable \<open>currentBlockId\<close> is a string or \<open>undefined\<close>; \<open>while (currentBlockId)\<close>
  runs while it is a non-empty string.
\<close>

fun truthyId :: "string option \<Rightarrow> bool" where
  "truthyId None \<longleftrightarrow> False"
| "truthyId (Some s) \<longleftrightarrow> s \<noteq> []"

text \<open>
  The objects stored in \<open>normalizedBlocks\<close>. The field \<open>next\<close> of such an object refers to
  another object of \<open>normalizedBlocks\<close>; the reference is the key of that object.
\<close>

record NormalizedEntry =
  ne_opcode :: string
  ne_inputs :: "(string \<times> json) list"
  ne_fields :: "(string \<times> json) list"
  ne_mutation :: "json option"
  ne_next :: "string option"

definition newEntry :: "RawBlock \<Rightarrow> NormalizedEntry" where
  "newEntry rawBlock =
     \<lparr> ne_opcode = opcode rawBlock, ne_inputs = inputs rawBlock, ne_fields = fields' rawBlock,
       ne_mutation = mutation rawBlock, ne_next = None \<rparr>"

text \<open>
  The two \<open>while\<close> loops. Neither has a bound of its own, so each takes fuel: \<open>None\<close> means
  that the loop is still running when the fuel is used up. A block id that is not a key of
  \<open>blocks\<close> ends the loop (\<open>break\<close>).
\<close>

fun firstPass ::
  "nat \<Rightarrow> (string \<times> RawBlock) list \<Rightarrow> string option \<Rightarrow> (string \<rightharpoonup> NormalizedEntry)
   \<Rightarrow> (string \<rightharpoonup> NormalizedEntry) option"
where
  "firstPass 0 blocks currentBlockId normalizedBlocks = None"
| "firstPass (Suc fuel) blocks currentBlockId normalizedBlocks =
     (if truthyId currentBlockId then
        (case map_of blocks (the currentBlockId) of
           None \<Rightarrow> Some normalizedBlocks
         | Some rawBlock \<Rightarrow>
             firstPass fuel blocks (next rawBlock)
               (normalizedBlocks(the currentBlockId \<mapsto> newEntry rawBlock)))
      else Some normalizedBlocks)"




text \<open>The pairs (successor, block) of the \<open>next\<close> pointers of a block map.\<close>

definition nextRel :: "(string \<times> RawBlock) list \<Rightarrow> (string \<times> string) set" where
  "nextRel blocks = {(j, i). \<exists>b. map_of blocks i = Some b \<and> next b = Some j}"


subsection \<open>Example block maps\<close>

definition mkBlock :: "string \<Rightarrow> string option \<Rightarrow> (string \<times> json) list \<Rightarrow> bool \<Rightarrow> RawBlock" where
  "mkBlock opc nxt inps isTop =
     \<lparr> opcode = opc, next = nxt, parent = None, inputs = inps, fields' = [],
       shadow = False, topLevel = isTop, mutation = None \<rparr>"


text \<open>Two blocks in sequence.\<close>

definition chain_blocks :: "(string \<times> RawBlock) list" where
  "chain_blocks =
     [(''a'', mkBlock ''event_whenflagclicked'' (Some ''b'') [] True),
      (''b'', mkBlock ''motion_movesteps'' None [] False)]"

text \<open>A block whose \<open>next\<close> names a block that is not in the map.\<close>

definition dangling_blocks :: "(string \<times> RawBlock) list" where
  "dangling_blocks = [(''a'', mkBlock ''event_whenflagclicked'' (Some ''zz'') [] True)]"

section \<open>Script text (\<open>parseScriptWithBlocks\<close>, \<open>parseSpriteScripts\<close>; script-parser.ts)\<close>

text \<open>
  \<open>generateFingerprint\<close>: \<open>hash = ((hash << 5) - hash) + char; hash = hash & hash\<close> on 32-bit
  integers, then \<open>Math.abs(hash).toString(16).padStart(8, '0')\<close>.
\<close>

definition hashStep :: "32 word \<Rightarrow> char \<Rightarrow> 32 word" where
  "hashStep hash c = (push_bit 5 hash - hash) + of_nat (of_char c)"

definition hashString :: "string \<Rightarrow> 32 word" where
  "hashString s = foldl hashStep 0 s"

function show_hex :: "int \<Rightarrow> string" where
  "show_hex n =
     (if n < 16 then [hex_char (nat n)] else show_hex (n div 16) @ [hex_char (nat (n mod 16))])"
  by pat_completeness auto
termination
  by (relation "measure nat") auto

declare show_hex.simps [simp del]

definition padStart :: "nat \<Rightarrow> char \<Rightarrow> string \<Rightarrow> string" where
  "padStart n c s = replicate (n - length s) c @ s"

definition generateFingerprint :: "string \<Rightarrow> string" where
  "generateFingerprint t = padStart 8 CHR ''0'' (show_hex \<bar>sint (hashString t)\<bar>)"

text \<open>\<open>some(value)\<close> for an object: \<open>JSON.stringify\<close> unless that is \<open>{}\<close> (or \<open>[]\<close>).\<close>

definition some_obj :: "(string \<times> json) list \<Rightarrow> string" where
  "some_obj kvs = (let s = stringify (JObj kvs) in if s = ''{}'' \<or> s = ''[]'' then [] else s)"

definition some_opt :: "json option \<Rightarrow> string" where
  "some_opt v =
     (case v of
        None \<Rightarrow> []
      | Some JNull \<Rightarrow> []
      | Some j \<Rightarrow> (let s = stringify j in if s = ''{}'' \<or> s = ''[]'' then [] else s))"

text \<open>
  \<open>trim\<close>, \<open>trimEnd\<close>: white space is a space, tab, line feed, vertical tab, form feed,
  carriage return or no-break space (the white-space code units below 256).
\<close>

definition is_space :: "char \<Rightarrow> bool" where
  "is_space c \<longleftrightarrow>
     c \<in> set [CHR 0x20, CHR 0x09, CHR 0x0A, CHR 0x0B, CHR 0x0C, CHR 0x0D, CHR 0xA0]"

definition trimEnd :: "string \<Rightarrow> string" where
  "trimEnd s = rev (dropWhile is_space (rev s))"

definition trim :: "string \<Rightarrow> string" where
  "trim s = trimEnd (dropWhile is_space s)"

text \<open>
  \<open>s.replace(new RegExp(pat, 'g'), rep)\<close> for a pattern that matches the literal string
  \<open>pat\<close>: every occurrence, left to right, without overlap.
\<close>

fun replaceAll :: "string \<Rightarrow> string \<Rightarrow> string \<Rightarrow> string" where
  "replaceAll pat rep [] = []"
| "replaceAll pat rep (c # cs) =
     (if pat \<noteq> [] \<and> take (length pat) (c # cs) = pat
      then rep @ replaceAll pat rep (drop (length pat - 1) cs)
      else c # replaceAll pat rep cs)"

text \<open>The loop that replaces every block id, in quotes, by \<open>"id"\<close>.\<close>

definition replaceIds :: "string list \<Rightarrow> string \<Rightarrow> string" where
  "replaceIds blockIds info =
     foldl (\<lambda>info key. replaceAll (CHR 0x22 # key @ [CHR 0x22]) (CHR 0x22 # ''id'' @ [CHR 0x22]) info)
       info blockIds"

text \<open>
  The id that an input slot refers to: the slot holds an array whose element 1 is a string.
\<close>

definition refOf :: "(string \<times> json) list \<Rightarrow> string \<Rightarrow> string option" where
  "refOf inps slot =
     (case map_of inps slot of
        Some (JArr (x # JStr s # xs)) \<Rightarrow> Some s
      | _ \<Rightarrow> None)"

text \<open>
  A computation that may not end within its fuel (\<open>None\<close>), may raise (\<open>Inl\<close>) or returns.
\<close>

definition thenDo ::
  "(js_error + 'a) option \<Rightarrow> ('a \<Rightarrow> (js_error + 'b) option) \<Rightarrow> (js_error + 'b) option"
where
  "thenDo r f = (case r of None \<Rightarrow> None | Some (Inl e) \<Rightarrow> Some (Inl e) | Some (Inr x) \<Rightarrow> f x)"

definition tabs :: "int \<Rightarrow> string" where
  "tabs n = replicate (nat n) (CHR 0x09)"

definition blockLine :: "string list \<Rightarrow> int \<Rightarrow> RawBlock \<Rightarrow> string" where
  "blockLine blockIds depth block =
     (let info = trim (some_obj (inputs block) @ '' '' @ some_obj (fields' block) @ '' ''
                       @ some_opt (mutation block))
      in tabs (depth + 1) @ opcode block @ '' '' @ replaceIds blockIds info @ [CHR 0x0A])"

definition blockTextOf :: "string list \<Rightarrow> int \<Rightarrow> RawBlock \<Rightarrow> BlockText" where
  "blockTextOf blockIds depth block =
     (let trimmedText = trim (blockLine blockIds depth block)
      in \<lparr> bt_text = trimmedText, bt_fingerprint = generateFingerprint trimmedText,
           bt_depth = depth + 1, bt_original = block \<rparr>)"

text \<open>
  The three blocks of \<open>parseScriptWithBlocks\<close> that follow an input slot: if the slot
  refers to an id, the script that starts there is parsed by a recursive call (\<open>call\<close>) and
  its text and blocks are appended to the state (output, blocks); for the condition slot
  the output is first cut by \<open>trimEnd\<close>.
\<close>

definition withChild ::
  "string option \<Rightarrow> (string \<Rightarrow> (js_error + string \<times> BlockText list) option) \<Rightarrow> bool
   \<Rightarrow> string \<times> BlockText list \<Rightarrow> (js_error + string \<times> BlockText list) option"
where
  "withChild ref call trimFirst st =
     (case ref of
        None \<Rightarrow> Some (Inr st)
      | Some s \<Rightarrow>
          thenDo (call s)
            (\<lambda>r. Some (Inr ((if trimFirst then trimEnd (fst st) else fst st) @ fst r,
                              snd st @ snd r))))"

text \<open>
  \<open>parseScriptWithBlocks\<close>, as the state of its \<open>while\<close> loop: the current id, the output
  so far and the blocks so far. Reading \<open>block.inputs\<close> of a block that is not in the map
  raises a \<open>TypeError\<close>. The loop has no bound of its own and takes fuel (\<open>None\<close>: still
  running when the fuel is used up). \<open>stack\<close> is the number of further nested calls that
  the call stack has room for: a recursive call beyond it raises a \<open>RangeError\<close>
  (maximum call stack size exceeded).
\<close>

fun parseScriptWithBlocks ::
  "nat \<Rightarrow> nat \<Rightarrow> (string \<times> RawBlock) list \<Rightarrow> string option \<Rightarrow> int \<Rightarrow> bool \<Rightarrow> string
   \<Rightarrow> BlockText list \<Rightarrow> (js_error + string \<times> BlockText list) option"
where
  "parseScriptWithBlocks 0 stack blocks currentId depth elseClause output acc = None"
| "parseScriptWithBlocks (Suc fuel) stack blocks currentId depth elseClause output acc =
     (if \<not> truthyId currentId then Some (Inr (output, acc))
      else
        (case map_of blocks (the currentId) of
           None \<Rightarrow> Some (Inl TypeError)
         | Some block \<Rightarrow>
             thenDo
               (withChild (refOf (inputs block) ''CONDITION'')
                  (\<lambda>s. if stack = 0 then Some (Inl RangeError)
                       else parseScriptWithBlocks fuel (stack - 1) blocks (Some s) 0 False [] [])
                  True
                  (output @ (if elseClause then tabs depth @ ''else'' @ [CHR 0x0A] else [])
                     @ blockLine (map fst blocks) depth block,
                   acc @ [blockTextOf (map fst blocks) depth block]))
               (\<lambda>st2. thenDo
                  (withChild (refOf (inputs block) ''SUBSTACK'')
                     (\<lambda>s. if stack = 0 then Some (Inl RangeError)
                          else parseScriptWithBlocks fuel (stack - 1) blocks (Some s) (depth + 1)
                                 False [] [])
                     False st2)
                  (\<lambda>st3. thenDo
                     (withChild (refOf (inputs block) ''SUBSTACK2'')
                        (\<lambda>s. if stack = 0 then Some (Inl RangeError)
                             else parseScriptWithBlocks fuel (stack - 1) blocks (Some s) (depth + 1)
                                    True [] [])
                        False st3)
                     (\<lambda>st4. parseScriptWithBlocks fuel stack blocks (next block) depth elseClause
                               (fst st4) (snd st4))))))"

text \<open>\<open>getTopLevelIds\<close>: the ids of the blocks flagged \<open>topLevel\<close>, shadow or not.\<close>

definition getTopLevelIds :: "(string \<times> RawBlock) list \<Rightarrow> string list" where
  "getTopLevelIds blocks = map fst (filter (\<lambda>(id, block). topLevel block) blocks)"

text \<open>
  \<open>parseSpriteScripts\<close>: one script per top id, then a stable sort by fingerprint. The
  fingerprints are strings of eight hexadecimal digits, on which \<open>localeCompare\<close> is the
  lexicographic order of the characters.
\<close>

fun parseTopIds ::
  "nat \<Rightarrow> nat \<Rightarrow> (string \<times> RawBlock) list \<Rightarrow> string list
   \<Rightarrow> (js_error + ScriptText list) option"
where
  "parseTopIds fuel stack blocks [] = Some (Inr [])"
| "parseTopIds fuel stack blocks (tid # topIds) =
     thenDo (parseScriptWithBlocks fuel stack blocks (Some tid) (- 1) False [] [])
       (\<lambda>scriptResult.
          thenDo (parseTopIds fuel stack blocks topIds)
            (\<lambda>scripts.
               Some (Inr (\<lparr> text = trim (fst scriptResult),
                             fingerprint = generateFingerprint (trim (fst scriptResult)),
                             st_blocks = snd scriptResult,
                             st_original = blocks,
                             topId = tid \<rparr> # scripts))))"

definition parseSpriteScripts ::
  "nat \<Rightarrow> nat \<Rightarrow> (string \<times> RawBlock) list \<Rightarrow> string list
   \<Rightarrow> (js_error + ScriptText list) option"
where
  "parseSpriteScripts fuel stack blocks topIds =
     thenDo (parseTopIds fuel stack blocks topIds)
       (\<lambda>scripts. Some (Inr (sort_key fingerprint scripts)))"




subsection \<open>Example: one script under two id namespaces\<close>

text \<open>
  A hat block followed by a block that shows the variable named \<open>x\<close>. In the first map the
  second block has the id \<open>x\<close>; the second map is the same tree with the ids \<open>a\<close>, \<open>x\<close>
  renamed to \<open>p\<close>, \<open>q\<close> in the keys, in \<open>next\<close> and in \<open>parent\<close>.
\<close>

definition tree_ax :: "(string \<times> RawBlock) list" where
  "tree_ax =
     [(''a'', \<lparr> opcode = ''event_whenflagclicked'', next = Some ''x'', parent = None, inputs = [],
               fields' = [], shadow = False, topLevel = True, mutation = None \<rparr>),
      (''x'', \<lparr> opcode = ''data_showvariable'', next = None, parent = Some ''a'', inputs = [],
               fields' = [(''VARIABLE'', JArr [JStr ''x'', JStr ''var1''])], shadow = False,
               topLevel = False, mutation = None \<rparr>)]"

definition tree_pq :: "(string \<times> RawBlock) list" where
  "tree_pq =
     [(''p'', \<lparr> opcode = ''event_whenflagclicked'', next = Some ''q'', parent = None, inputs = [],
               fields' = [], shadow = False, topLevel = True, mutation = None \<rparr>),
      (''q'', \<lparr> opcode = ''data_showvariable'', next = None, parent = Some ''p'', inputs = [],
               fields' = [(''VARIABLE'', JArr [JStr ''x'', JStr ''var1''])], shadow = False,
               topLevel = False, mutation = None \<rparr>)]"

section \<open>Script matching (\<open>BlockDiffEngine.matchScripts\<close>, diff.ts)\<close>

text \<open>
  A JavaScript \<open>Map\<close> with string keys is an association list with distinct keys in
  insertion order: \<open>set\<close> on an existing key replaces the value in place, on a new key it
  appends (\<open>AList.update\<close>); \<open>get\<close> is \<open>map_of\<close>; \<open>delete\<close> is \<open>AList.delete\<close>.
\<close>

definition scriptMap :: "ScriptText list \<Rightarrow> (string \<times> ScriptText) list" where
  "scriptMap ss = foldl (\<lambda>m s. AList.update (fingerprint s) s m) [] ss"

text \<open>
  One iteration of the loop over \<open>oldScriptMap.entries()\<close>. The state is
  (matchedScripts, unmatchedOldScripts, unmatchedNewScripts, newScriptMap).
\<close>

fun exactStep ::
  "(ScriptText \<times> ScriptText) list \<times> ScriptText list \<times> ScriptText list \<times> (string \<times> ScriptText) list
   \<Rightarrow> string \<times> ScriptText
   \<Rightarrow> (ScriptText \<times> ScriptText) list \<times> ScriptText list \<times> ScriptText list \<times> (string \<times> ScriptText) list"
where
  "exactStep (matched, uo, un, newMap) (fp, oldScript) =
     (case map_of newMap fp of
        Some newScript \<Rightarrow>
          (matched @ [(oldScript, newScript)],
           filter (\<lambda>s. fingerprint s \<noteq> fp) uo,
           filter (\<lambda>s. fingerprint s \<noteq> fp) un,
           AList.delete fp newMap)
      | None \<Rightarrow> (matched, uo, un, newMap))"

text \<open>
  The similarity test of the fallback loop. \<open>minLength / maxLength\<close> is a division of
  doubles; for string lengths below \<open>2^49\<close> the rounded quotient exceeds the double \<open>0.7\<close>
  exactly when the exact quotient exceeds \<open>7/10\<close>, and \<open>0 / 0\<close> is \<open>NaN\<close>, which is not
  greater than \<open>0.7\<close> (in HOL \<open>0 / 0 = 0\<close>, with the same outcome).
\<close>

definition lengthRatio :: "ScriptText \<Rightarrow> ScriptText \<Rightarrow> real" where
  "lengthRatio oldScript newScript =
     (let minLength = min (length (text oldScript)) (length (text newScript));
          maxLength = max (length (text oldScript)) (length (text newScript))
      in real minLength / real maxLength)"

definition hasCommonStart :: "ScriptText \<Rightarrow> ScriptText \<Rightarrow> bool" where
  "hasCommonStart oldScript newScript \<longleftrightarrow> take 20 (text oldScript) = take 20 (text newScript)"

definition similar :: "ScriptText \<Rightarrow> ScriptText \<Rightarrow> bool" where
  "similar oldScript newScript \<longleftrightarrow>
     lengthRatio oldScript newScript > 0.7 \<and> hasCommonStart oldScript newScript"

text \<open>
  One iteration of the loop over the scripts left unmatched: the inner loop stops at the first
  similar new script (\<open>break\<close>), which is then removed from the pool by object identity.
  Script objects of one list are distinct objects with distinct \<open>topId\<close>s, so identity is
  equality of the records.
\<close>

fun heuristicStep ::
  "(ScriptText \<times> ScriptText) list \<times> ScriptText list \<Rightarrow> ScriptText
   \<Rightarrow> (ScriptText \<times> ScriptText) list \<times> ScriptText list"
where
  "heuristicStep (matched, un) oldScript =
     (case find (similar oldScript) un of
        Some bestMatch \<Rightarrow> (matched @ [(oldScript, bestMatch)], filter (\<lambda>s. s \<noteq> bestMatch) un)
      | None \<Rightarrow> (matched, un))"

record ScriptMatches =
  matchedScripts :: "(ScriptText \<times> ScriptText) list"
  unmatchedOldScripts :: "ScriptText list"
  unmatchedNewScripts :: "ScriptText list"

definition exactPhase ::
  "ScriptText list \<Rightarrow> ScriptText list
   \<Rightarrow> (ScriptText \<times> ScriptText) list \<times> ScriptText list \<times> ScriptText list \<times> (string \<times> ScriptText) list"
where
  "exactPhase oldScripts newScripts =
     foldl exactStep ([], oldScripts, newScripts, scriptMap newScripts) (scriptMap oldScripts)"

definition matchScripts :: "ScriptText list \<Rightarrow> ScriptText list \<Rightarrow> ScriptMatches" where
  "matchScripts oldScripts newScripts =
     (case exactPhase oldScripts newScripts of
        (matched1, uo, un1, _) \<Rightarrow>
          (case foldl heuristicStep (matched1, un1) uo of
             (matched, un) \<Rightarrow>
               \<lparr> matchedScripts = matched,
                 unmatchedOldScripts =
                   filter (\<lambda>s. fingerprint s \<notin> set (map (fingerprint \<circ> fst) matched)) uo,
                 unmatchedNewScripts =
                   filter (\<lambda>s. fingerprint s \<notin> set (map (fingerprint \<circ> snd) matched)) un \<rparr>))"

subsection \<open>Example scripts\<close>

definition mkScript :: "string \<Rightarrow> string \<Rightarrow> string \<Rightarrow> ScriptText" where
  "mkScript t fp tid = \<lparr> text = t, fingerprint = fp, st_blocks = [], st_original = [], topId = tid \<rparr>"

definition ex_old :: ScriptText where
  "ex_old = mkScript ''event_whenflagclicked\<newline>motion_movesteps 10'' ''0a0a0a0a'' ''a''"

definition ex_new :: ScriptText where
  "ex_new = mkScript ''event_whenflagclicked\<newline>motion_movesteps 25'' ''0b0b0b0b'' ''b''"

text \<open>Two copies of one script in the old target, one copy in the new target.\<close>

definition dup_old1 :: ScriptText where
  "dup_old1 = mkScript ''event_whenflagclicked'' ''1c2d3e4f'' ''a1''"

definition dup_old2 :: ScriptText where
  "dup_old2 = mkScript ''event_whenflagclicked'' ''1c2d3e4f'' ''a2''"

definition dup_new :: ScriptText where
  "dup_new = mkScript ''event_whenflagclicked'' ''1c2d3e4f'' ''b1''"

section \<open>Diff items and keyed collections (diff.ts, types.ts)\<close>

datatype DiffType =
    script_add | script_delete | script_modify
  | block_add | block_delete | block_edit | block_move
  | variable_add | variable_delete | variable_edit
  | list_add | list_delete | list_edit
  | costume_add | costume_delete | costume_edit
  | sound_add | sound_delete | sound_edit

text \<open>The payload \<open>old\<close>/\<open>new\<close> of an item: a script, or a native collection entry.\<close>

datatype payload = PScript ScriptText | PJson json

record ItemDiff =
  d_added :: nat
  d_removed :: nat
  d_text :: string

text \<open>
  \<open>DiffItem\<close>. \<open>di_targetName\<close> is \<open>location.targetName\<close>; \<open>di_fingerprint\<close> is a script
  fingerprint, a variable or list key, or the identity of a costume or sound.
\<close>

record DiffItem =
  di_type :: DiffType
  di_targetName :: string
  di_old :: "payload option"
  di_new :: "payload option"
  di_fingerprint :: "json option"
  di_diff :: "ItemDiff option"

definition mkItem ::
  "DiffType \<Rightarrow> string \<Rightarrow> json option \<Rightarrow> json option \<Rightarrow> json \<Rightarrow> DiffItem"
where
  "mkItem ty targetName ov nv key =
     \<lparr> di_type = ty, di_targetName = targetName,
       di_old = map_option PJson ov, di_new = map_option PJson nv,
       di_fingerprint = Some key, di_diff = None \<rparr>"

text \<open>
  \<open>diffVariables\<close> and \<open>diffLists\<close> are the same code up to the three item types; the
  collections are objects keyed by id, each value the array \<open>[name, value]\<close>. First loop:
  keys of the old object absent from the new one. Second loop: keys of the new object.
\<close>

definition diffRecords ::
  "DiffType \<Rightarrow> DiffType \<Rightarrow> DiffType
   \<Rightarrow> (string \<times> json) list \<Rightarrow> (string \<times> json) list \<Rightarrow> string \<Rightarrow> DiffItem list"
where
  "diffRecords tdel tadd tedit oldRec newRec targetName =
     concat (map (\<lambda>key.
        if key \<notin> set (map fst newRec)
        then [mkItem tdel targetName (map_of oldRec key) None (JStr key)]
        else []) (map fst oldRec))
     @ concat (map (\<lambda>key.
        if key \<notin> set (map fst oldRec)
        then [mkItem tadd targetName None (map_of newRec key) (JStr key)]
        else if stringify_opt (map_of oldRec key) \<noteq> stringify_opt (map_of newRec key)
        then [mkItem tedit targetName (map_of oldRec key) (map_of newRec key) (JStr key)]
        else []) (map fst newRec))"

definition diffVariables :: "(string \<times> json) list \<Rightarrow> (string \<times> json) list \<Rightarrow> string \<Rightarrow> DiffItem list" where
  "diffVariables = diffRecords variable_delete variable_add variable_edit"

definition diffLists :: "(string \<times> json) list \<Rightarrow> (string \<times> json) list \<Rightarrow> string \<Rightarrow> DiffItem list" where
  "diffLists = diffRecords list_delete list_add list_edit"

text \<open>
  A \<open>Map\<close> keyed by JavaScript values: an association list in insertion order; \<open>set\<close> on
  a key that is already there replaces the value in place.
\<close>

fun mapSet :: "json \<Rightarrow> 'v \<Rightarrow> (json \<times> 'v) list \<Rightarrow> (json \<times> 'v) list" where
  "mapSet k v [] = [(k, v)]"
| "mapSet k v ((k', v') # m) = (if js_same k' k then (k', v) # m else (k', v') # mapSet k v m)"

fun mapGet :: "(json \<times> 'v) list \<Rightarrow> json \<Rightarrow> 'v option" where
  "mapGet [] k = None"
| "mapGet ((k', v') # m) k = (if js_same k' k then Some v' else mapGet m k)"


text \<open>\<open>resource.assetId || resource.md5ext\<close>; the property read raises on \<open>null\<close>.\<close>

definition stableId :: "json \<Rightarrow> js_error + json option" where
  "stableId r =
     (case getProp r ''assetId'' of
        Inl e \<Rightarrow> Inl e
      | Inr a \<Rightarrow> if truthy a then Inr a else getProp r ''md5ext'')"

text \<open>
  \<open>createResourceMap\<close>. The key of a resource is \<open>assetId || md5ext || Math.random().toString()\<close>.
  \<open>rnd\<close> is the sequence of strings that \<open>Math.random().toString()\<close> gives and the counter is
  the number of draws so far; the function returns the map and the new counter.
\<close>

fun createResourceMap_loop ::
  "(nat \<Rightarrow> string) \<Rightarrow> nat \<Rightarrow> (json \<times> json) list \<Rightarrow> json list
   \<Rightarrow> js_error + (json \<times> json) list \<times> nat"
where
  "createResourceMap_loop rnd c m [] = Inr (m, c)"
| "createResourceMap_loop rnd c m (r # rs) =
     (case stableId r of
        Inl e \<Rightarrow> Inl e
      | Inr i \<Rightarrow>
          if truthy i then createResourceMap_loop rnd c (mapSet (the i) r m) rs
          else createResourceMap_loop rnd (Suc c) (mapSet (JStr (rnd c)) r m) rs)"

definition createResourceMap ::
  "(nat \<Rightarrow> string) \<Rightarrow> nat \<Rightarrow> json list \<Rightarrow> js_error + (json \<times> json) list \<times> nat"
where
  "createResourceMap rnd c resources = createResourceMap_loop rnd c [] resources"

text \<open>
  \<open>diffCostumes\<close> and \<open>diffSounds\<close>, the same code up to the item types, on the two
  resource maps.
\<close>

definition diffResourceMaps ::
  "DiffType \<Rightarrow> DiffType \<Rightarrow> DiffType
   \<Rightarrow> (json \<times> json) list \<Rightarrow> (json \<times> json) list \<Rightarrow> string \<Rightarrow> DiffItem list"
where
  "diffResourceMaps tdel tadd tedit oldMap newMap targetName =
     concat (map (\<lambda>(k, r).
        if mapGet newMap k = None then [mkItem tdel targetName (Some r) None k] else [])
        oldMap)
     @ concat (map (\<lambda>(k, r).
        if mapGet oldMap k = None then [mkItem tadd targetName None (Some r) k]
        else if stringify_opt (mapGet oldMap k) \<noteq> stringify_opt (Some r)
        then [mkItem tedit targetName (mapGet oldMap k) (Some r) k]
        else []) newMap)"

definition diffResources ::
  "DiffType \<Rightarrow> DiffType \<Rightarrow> DiffType \<Rightarrow> (nat \<Rightarrow> string) \<Rightarrow> nat
   \<Rightarrow> json list \<Rightarrow> json list \<Rightarrow> string \<Rightarrow> js_error + DiffItem list \<times> nat"
where
  "diffResources tdel tadd tedit rnd c oldRes newRes targetName =
     (case createResourceMap rnd c oldRes of
        Inl e \<Rightarrow> Inl e
      | Inr (oldMap, c1) \<Rightarrow>
          (case createResourceMap rnd c1 newRes of
             Inl e \<Rightarrow> Inl e
           | Inr (newMap, c2) \<Rightarrow>
               Inr (diffResourceMaps tdel tadd tedit oldMap newMap targetName, c2)))"

definition diffCostumes ::
  "(nat \<Rightarrow> string) \<Rightarrow> nat \<Rightarrow> json list \<Rightarrow> json list \<Rightarrow> string
   \<Rightarrow> js_error + DiffItem list \<times> nat" where
  "diffCostumes = diffResources costume_delete costume_add costume_edit"

definition diffSounds ::
  "(nat \<Rightarrow> string) \<Rightarrow> nat \<Rightarrow> json list \<Rightarrow> json list \<Rightarrow> string
   \<Rightarrow> js_error + DiffItem list \<times> nat" where
  "diffSounds = diffResources sound_delete sound_add sound_edit"

subsection \<open>Example: the variable \<open>score\<close> changes from 0 to 5\<close>



text \<open>A costume with a stable identity.\<close>

definition costume_cat :: json where
  "costume_cat = JObj [(''name'', JStr ''cat''), (''assetId'', JStr ''b7853f55''),
                       (''md5ext'', JStr ''b7853f55.svg''), (''dataFormat'', JStr ''svg'')]"




section \<open>\<open>formatDiff\<close> (text-diff.ts) and \<open>BlockDiffEngine.generateDiff\<close> (diff.ts)\<close>

text \<open>
  \<open>formatDiff\<close> with the default names \<open>old\<close> and \<open>new\<close>. The state is the output, the two
  line counters and the current group. An undefined line prints as \<open>undefined\<close>.
\<close>

definition lineText :: "change \<Rightarrow> string" where
  "lineText c = (case line c of None \<Rightarrow> ''undefined'' | Some l \<Rightarrow> l)"

fun emitChange :: "string \<times> nat \<times> nat \<Rightarrow> change \<Rightarrow> string \<times> nat \<times> nat" where
  "emitChange (output, lineNumOld, lineNumNew) c =
     (case ctype c of
        Add \<Rightarrow> (output @ ''+'' @ lineText c @ [CHR 0x0A], lineNumOld, lineNumNew + 1)
      | Remove \<Rightarrow> (output @ ''-'' @ lineText c @ [CHR 0x0A], lineNumOld + 1, lineNumNew)
      | Keep \<Rightarrow> (output @ '' '' @ lineText c @ [CHR 0x0A], lineNumOld + 1, lineNumNew + 1))"

fun flushGroup :: "string \<times> nat \<times> nat \<times> change list \<Rightarrow> string \<times> nat \<times> nat \<times> change list" where
  "flushGroup (output, lineNumOld, lineNumNew, grp) =
     (if grp = [] then (output, lineNumOld, lineNumNew, grp)
      else if \<not> list_ex (\<lambda>c. ctype c \<noteq> Keep) grp then (output, lineNumOld, lineNumNew, [])
      else
        (let oldCount = length (filter (\<lambda>c. ctype c \<noteq> Add) grp);
             newCount = length (filter (\<lambda>c. ctype c \<noteq> Remove) grp);
             header = ''@@ -'' @ show_nat lineNumOld @ '','' @ show_nat oldCount
                      @ '' +'' @ show_nat lineNumNew @ '','' @ show_nat newCount @ '' @@'' @ [CHR 0x0A]
         in (case foldl emitChange (output @ header, lineNumOld, lineNumNew) grp of
               (output', o', n') \<Rightarrow> (output', o', n', []))))"

fun formatStep :: "string \<times> nat \<times> nat \<times> change list \<Rightarrow> change \<Rightarrow> string \<times> nat \<times> nat \<times> change list" where
  "formatStep (output, lineNumOld, lineNumNew, grp) c =
     (if ctype c = Keep \<and> length (grp @ [c]) > 1
      then flushGroup (output, lineNumOld, lineNumNew, grp @ [c])
      else (output, lineNumOld, lineNumNew, grp @ [c]))"

definition formatDiff :: "TextDiffResult \<Rightarrow> string" where
  "formatDiff result =
     fst (flushGroup (foldl formatStep
        (''diff --git old new'' @ [CHR 0x0A] @ ''--- old'' @ [CHR 0x0A] @ ''+++ new'' @ [CHR 0x0A],
         1, 1, []) (changes result)))"

definition itemDiffOf :: "TextDiffResult \<Rightarrow> ItemDiff" where
  "itemDiffOf textDiff =
     \<lparr> d_added = added textDiff, d_removed = removed textDiff, d_text = formatDiff textDiff \<rparr>"

text \<open>\<open>diffBlocks\<close>: a line diff of the block texts of the two scripts, joined by line feeds.\<close>

definition diffBlocks :: "ScriptText \<Rightarrow> ScriptText \<Rightarrow> string \<Rightarrow> js_error + DiffItem list" where
  "diffBlocks oldScript newScript targetName =
     (case diffText (join [CHR 0x0A] (map bt_text (st_blocks oldScript)))
                    (join [CHR 0x0A] (map bt_text (st_blocks newScript))) of
        Inl e \<Rightarrow> Inl e
      | Inr textDiff \<Rightarrow>
          Inr (if added textDiff > 0 \<or> removed textDiff > 0
               then [\<lparr> di_type = block_edit, di_targetName = targetName, di_old = None,
                       di_new = None, di_fingerprint = Some (JStr (fingerprint oldScript)),
                       di_diff = Some (itemDiffOf textDiff) \<rparr>]
               else []))"

text \<open>The items of one matched pair: a \<open>script-modify\<close> item and the block items, or nothing.\<close>

definition matchedItems :: "string \<Rightarrow> ScriptText \<times> ScriptText \<Rightarrow> js_error + DiffItem list" where
  "matchedItems targetName m =
     (case diffText (text (fst m)) (text (snd m)) of
        Inl e \<Rightarrow> Inl e
      | Inr textDiff \<Rightarrow>
          if added textDiff > 0 \<or> removed textDiff > 0 then
            (case diffBlocks (fst m) (snd m) targetName of
               Inl e \<Rightarrow> Inl e
             | Inr blockDiff \<Rightarrow>
                 Inr (\<lparr> di_type = script_modify, di_targetName = targetName,
                        di_old = Some (PScript (fst m)), di_new = Some (PScript (snd m)),
                        di_fingerprint = Some (JStr (fingerprint (fst m))),
                        di_diff = Some (itemDiffOf textDiff) \<rparr> # blockDiff))
          else Inr [])"

fun allMatchedItems :: "string \<Rightarrow> (ScriptText \<times> ScriptText) list \<Rightarrow> js_error + DiffItem list" where
  "allMatchedItems targetName [] = Inr []"
| "allMatchedItems targetName (m # ms) =
     (case matchedItems targetName m of
        Inl e \<Rightarrow> Inl e
      | Inr items \<Rightarrow>
          (case allMatchedItems targetName ms of
             Inl e \<Rightarrow> Inl e
           | Inr rest \<Rightarrow> Inr (items @ rest)))"

definition scriptDeleteItem :: "string \<Rightarrow> ScriptText \<Rightarrow> DiffItem" where
  "scriptDeleteItem targetName oldScript =
     \<lparr> di_type = script_delete, di_targetName = targetName, di_old = Some (PScript oldScript),
       di_new = None, di_fingerprint = Some (JStr (fingerprint oldScript)), di_diff = None \<rparr>"

definition scriptAddItem :: "string \<Rightarrow> ScriptText \<Rightarrow> DiffItem" where
  "scriptAddItem targetName newScript =
     \<lparr> di_type = script_add, di_targetName = targetName, di_old = None,
       di_new = Some (PScript newScript), di_fingerprint = Some (JStr (fingerprint newScript)),
       di_diff = None \<rparr>"

text \<open>
  The script part of the loop body for one target name, on the raw targets of that name.
\<close>

definition scriptItems ::
  "nat \<Rightarrow> nat \<Rightarrow> string \<Rightarrow> RawTarget option \<Rightarrow> RawTarget option
   \<Rightarrow> (js_error + DiffItem list) option"
where
  "scriptItems fuel stack targetName oldRawTarget newRawTarget =
     (case (oldRawTarget, newRawTarget) of
        (Some ot, Some nt) \<Rightarrow>
          thenDo (parseSpriteScripts fuel stack (t_blocks ot) (getTopLevelIds (t_blocks ot)))
            (\<lambda>oldScripts.
               thenDo (parseSpriteScripts fuel stack (t_blocks nt) (getTopLevelIds (t_blocks nt)))
                 (\<lambda>newScripts.
                    (let scriptMatches = matchScripts oldScripts newScripts
                     in case allMatchedItems targetName (matchedScripts scriptMatches) of
                          Inl e \<Rightarrow> Some (Inl e)
                        | Inr items \<Rightarrow>
                            Some (Inr (items
                              @ map (scriptDeleteItem targetName) (unmatchedOldScripts scriptMatches)
                              @ map (scriptAddItem targetName) (unmatchedNewScripts scriptMatches))))))
      | (Some ot, None) \<Rightarrow>
          thenDo (parseSpriteScripts fuel stack (t_blocks ot) (getTopLevelIds (t_blocks ot)))
            (\<lambda>oldScripts. Some (Inr (map (scriptDeleteItem targetName) oldScripts)))
      | (None, Some nt) \<Rightarrow>
          thenDo (parseSpriteScripts fuel stack (t_blocks nt) (getTopLevelIds (t_blocks nt)))
            (\<lambda>newScripts. Some (Inr (map (scriptAddItem targetName) newScripts)))
      | (None, None) \<Rightarrow> Some (Inr []))"

text \<open>
  The collection part of the loop body, when the target exists on both sides; the counter
  of random draws is threaded through the four resource maps. A \<open>null\<close> entry of a costume
  or sound list raises a \<open>TypeError\<close>.
\<close>

definition collectionItems ::
  "(nat \<Rightarrow> string) \<Rightarrow> nat \<Rightarrow> string \<Rightarrow> RawTarget option \<Rightarrow> RawTarget option
   \<Rightarrow> js_error + DiffItem list \<times> nat"
where
  "collectionItems rnd c targetName oldTarget newTarget =
     (case (oldTarget, newTarget) of
        (Some ot, Some nt) \<Rightarrow>
          (case diffCostumes rnd c (t_costumes ot) (t_costumes nt) targetName of
             Inl e \<Rightarrow> Inl e
           | Inr (costumeDiff, c1) \<Rightarrow>
               (case diffSounds rnd c1 (t_sounds ot) (t_sounds nt) targetName of
                  Inl e \<Rightarrow> Inl e
                | Inr (soundDiff, c2) \<Rightarrow>
                    Inr (diffVariables (t_variables ot) (t_variables nt) targetName
                         @ diffLists (t_lists ot) (t_lists nt) targetName
                         @ costumeDiff @ soundDiff, c2)))
      | _ \<Rightarrow> Inr ([], c))"

text \<open>
  \<open>ScriptMatcher.matchProjects\<close> (matcher.ts), as far as \<open>generateDiff\<close> uses it: the target
  names of both projects, each once, in the order of first occurrence.
\<close>

fun uniq :: "'a list \<Rightarrow> 'a list" where
  "uniq [] = []"
| "uniq (x # xs) = x # uniq (filter (\<lambda>y. y \<noteq> x) xs)"

definition allTargetNames :: "RawTarget list \<Rightarrow> RawTarget list \<Rightarrow> string list" where
  "allTargetNames oldTargets newTargets = uniq (map t_name oldTargets @ map t_name newTargets)"

text \<open>
  \<open>generateDiff\<close>, on the raw targets of the two projects: the targets of the intermediate
  representation carry the name and the four collections of the raw targets unchanged, so
  both lookups are made in the raw targets. The loop over the target names threads the
  counter of random draws.
\<close>

fun generateDiff_loop ::
  "nat \<Rightarrow> nat \<Rightarrow> (nat \<Rightarrow> string) \<Rightarrow> nat \<Rightarrow> RawTarget list \<Rightarrow> RawTarget list \<Rightarrow> string list
   \<Rightarrow> (js_error + DiffItem list) option"
where
  "generateDiff_loop fuel stack rnd c oldTargets newTargets [] = Some (Inr [])"
| "generateDiff_loop fuel stack rnd c oldTargets newTargets (targetName # names) =
     (let oldTarget = find (\<lambda>t. t_name t = targetName) oldTargets;
          newTarget = find (\<lambda>t. t_name t = targetName) newTargets
      in case collectionItems rnd c targetName oldTarget newTarget of
           Inl e \<Rightarrow> Some (Inl e)
         | Inr (items1, c') \<Rightarrow>
             thenDo (scriptItems fuel stack targetName oldTarget newTarget)
               (\<lambda>items2.
                  thenDo (generateDiff_loop fuel stack rnd c' oldTargets newTargets names)
                    (\<lambda>rest. Some (Inr (items1 @ items2 @ rest)))))"

definition generateDiff ::
  "nat \<Rightarrow> nat \<Rightarrow> (nat \<Rightarrow> string) \<Rightarrow> RawTarget list \<Rightarrow> RawTarget list
   \<Rightarrow> (js_error + DiffItem list) option"
where
  "generateDiff fuel stack rnd oldTargets newTargets =
     generateDiff_loop fuel stack rnd 0 oldTargets newTargets
       (allTargetNames oldTargets newTargets)"




subsection \<open>Example projects\<close>

definition mkTarget ::
  "string \<Rightarrow> (string \<times> json) list \<Rightarrow> (string \<times> RawBlock) list \<Rightarrow> json list \<Rightarrow> RawTarget"
where
  "mkTarget n vars blks costumes =
     \<lparr> t_isStage = False, t_name = n, t_variables = vars, t_lists = [], t_blocks = blks,
       t_costumes = costumes, t_sounds = [] \<rparr>"

text \<open>The strings that \<open>Math.random().toString()\<close> gives in the examples, all distinct.\<close>

definition rnd_ex :: "nat \<Rightarrow> string" where
  "rnd_ex n = ''0.'' @ show_nat (Suc n)"


definition dangling_project :: "RawTarget list" where
  "dangling_project = [mkTarget ''Sprite1'' [] dangling_blocks [costume_cat]]"




section \<open>Replaying a diff (\<open>handleReconstructCommand\<close>, index.ts)\<close>

text \<open>\<open>Array.prototype.findIndex\<close>; \<open>None\<close> is \<open>-1\<close>.\<close>

fun findIndex :: "('a \<Rightarrow> bool) \<Rightarrow> 'a list \<Rightarrow> nat option" where
  "findIndex P [] = None"
| "findIndex P (x # xs) = (if P x then Some 0 else map_option Suc (findIndex P xs))"

text \<open>The target pushed when the named target is missing: every collection is empty.\<close>

definition shell :: "string \<Rightarrow> RawTarget" where
  "shell n = \<lparr> t_isStage = False, t_name = n, t_variables = [], t_lists = [], t_blocks = [],
               t_costumes = [], t_sounds = [] \<rparr>"

text \<open>The test that decides whether a missing target is created.\<close>

definition createsTarget :: "bool \<Rightarrow> DiffType \<Rightarrow> bool" where
  "createsTarget isReverse ty \<longleftrightarrow>
     (if isReverse then ty \<in> set [script_delete, block_delete, costume_delete, sound_delete]
      else ty \<in> set [script_add, block_add, costume_add, sound_add])"

datatype resourceType = Costumes | Sounds

datatype changeType = CAdd | CDelete | CEdit

text \<open>
  \<open>item.type.startsWith('costume-') || item.type.startsWith('sound-')\<close>, with the
  collection and \<open>item.type.split('-')[1]\<close>.
\<close>

fun resourceChange :: "DiffType \<Rightarrow> (resourceType \<times> changeType) option" where
  "resourceChange costume_add = Some (Costumes, CAdd)"
| "resourceChange costume_delete = Some (Costumes, CDelete)"
| "resourceChange costume_edit = Some (Costumes, CEdit)"
| "resourceChange sound_add = Some (Sounds, CAdd)"
| "resourceChange sound_delete = Some (Sounds, CDelete)"
| "resourceChange sound_edit = Some (Sounds, CEdit)"
| "resourceChange _ = None"

fun actualChangeType :: "bool \<Rightarrow> changeType \<Rightarrow> changeType" where
  "actualChangeType True CAdd = CDelete"
| "actualChangeType True CDelete = CAdd"
| "actualChangeType isReverse ct = ct"

text \<open>
  The JSON value of a payload read back from the diff file. A script payload is an object
  without \<open>assetId\<close> and \<open>md5ext\<close>; its block list and block map are left out. A missing
  payload (\<open>undefined\<close>) is written \<open>JNull\<close>: in every operation of the replay \<open>undefined\<close>
  and \<open>null\<close> behave alike (a property read raises, an array prints either as \<open>null\<close>).
\<close>

fun payload_json :: "payload option \<Rightarrow> json" where
  "payload_json None = JNull"
| "payload_json (Some (PJson j)) = j"
| "payload_json (Some (PScript s)) =
     JObj [(''text'', JStr (text s)), (''fingerprint'', JStr (fingerprint s)),
           (''topId'', JStr (topId s))]"

text \<open>
  The callback of \<open>filter\<close> and \<open>findIndex\<close>: it reads the identity of the list element,
  then that of \<open>oldValue\<close>, and compares them with \<open>===\<close>; either read raises on \<open>null\<close>.
\<close>

definition sameResource :: "json \<Rightarrow> json \<Rightarrow> js_error + bool" where
  "sameResource oldValue r =
     (case stableId r of
        Inl e \<Rightarrow> Inl e
      | Inr resourceId \<Rightarrow>
          (case stableId oldValue of
             Inl e \<Rightarrow> Inl e
           | Inr itemId \<Rightarrow> Inr (js_same_opt resourceId itemId)))"

text \<open>\<open>filter\<close> with the negated callback, and \<open>findIndex\<close>, stopping at the first error.\<close>

fun removeResource :: "json \<Rightarrow> json list \<Rightarrow> js_error + json list" where
  "removeResource oldValue [] = Inr []"
| "removeResource oldValue (r # rs) =
     (case sameResource oldValue r of
        Inl e \<Rightarrow> Inl e
      | Inr same \<Rightarrow>
          (case removeResource oldValue rs of
             Inl e \<Rightarrow> Inl e
           | Inr rs' \<Rightarrow> Inr (if same then rs' else r # rs')))"

fun findResource :: "json \<Rightarrow> json list \<Rightarrow> js_error + nat option" where
  "findResource oldValue [] = Inr None"
| "findResource oldValue (r # rs) =
     (case sameResource oldValue r of
        Inl e \<Rightarrow> Inl e
      | Inr same \<Rightarrow>
          if same then Inr (Some 0)
          else (case findResource oldValue rs of
                  Inl e \<Rightarrow> Inl e
                | Inr i \<Rightarrow> Inr (map_option Suc i)))"

text \<open>The three branches on a resource list.\<close>

definition applyChange ::
  "changeType \<Rightarrow> payload option \<Rightarrow> payload option \<Rightarrow> json list \<Rightarrow> js_error + json list"
where
  "applyChange ct oldValue newValue rs =
     (case ct of
        CAdd \<Rightarrow> Inr (rs @ [payload_json newValue])
      | CDelete \<Rightarrow> removeResource (payload_json oldValue) rs
      | CEdit \<Rightarrow>
          (case findResource (payload_json oldValue) rs of
             Inl e \<Rightarrow> Inl e
           | Inr None \<Rightarrow> Inr rs
           | Inr (Some i) \<Rightarrow> Inr (rs[i := payload_json newValue])))"

text \<open>The body of the loop for an item whose target exists.\<close>

definition applyToTarget :: "bool \<Rightarrow> DiffItem \<Rightarrow> RawTarget \<Rightarrow> js_error + RawTarget" where
  "applyToTarget isReverse item target =
     (case resourceChange (di_type item) of
        None \<Rightarrow> Inr target
      | Some (rt, ct) \<Rightarrow>
          (let oldValue = (if isReverse then di_new item else di_old item);
               newValue = (if isReverse then di_old item else di_new item);
               act = actualChangeType isReverse ct
           in case rt of
                Costumes \<Rightarrow>
                  (case applyChange act oldValue newValue (t_costumes target) of
                     Inl e \<Rightarrow> Inl e
                   | Inr rs \<Rightarrow> Inr (target\<lparr> t_costumes := rs \<rparr>))
              | Sounds \<Rightarrow>
                  (case applyChange act oldValue newValue (t_sounds target) of
                     Inl e \<Rightarrow> Inl e
                   | Inr rs \<Rightarrow> Inr (target\<lparr> t_sounds := rs \<rparr>))))"

text \<open>
  One iteration of \<open>for (const item of diff.items)\<close> on the targets of the copy of the
  base project. When the target is missing the iteration ends with \<open>continue\<close>, whether or
  not a target was pushed.
\<close>

definition replayItem :: "bool \<Rightarrow> RawTarget list \<Rightarrow> DiffItem \<Rightarrow> js_error + RawTarget list" where
  "replayItem isReverse targets item =
     (case findIndex (\<lambda>t. t_name t = di_targetName item) targets of
        None \<Rightarrow>
          if createsTarget isReverse (di_type item)
          then Inr (targets @ [shell (di_targetName item)])
          else Inr targets
      | Some targetIndex \<Rightarrow>
          (case applyToTarget isReverse item (targets ! targetIndex) of
             Inl e \<Rightarrow> Inl e
           | Inr target \<Rightarrow> Inr (targets[targetIndex := target])))"

fun replay :: "bool \<Rightarrow> RawTarget list \<Rightarrow> DiffItem list \<Rightarrow> js_error + RawTarget list" where
  "replay isReverse targets [] = Inr targets"
| "replay isReverse targets (item # items) =
     (case replayItem isReverse targets item of
        Inl e \<Rightarrow> Inl e
      | Inr targets' \<Rightarrow> replay isReverse targets' items)"

subsection \<open>Example: a costume added to a sprite that the base project does not have\<close>

definition add_cat_item :: DiffItem where
  "add_cat_item = mkItem costume_add ''Sprite1'' None (Some costume_cat) (JStr ''b7853f55'')"

definition stage_only :: "RawTarget list" where
  "stage_only = [\<lparr> t_isStage = True, t_name = ''Stage'', t_variables = [], t_lists = [],
                    t_blocks = [], t_costumes = [], t_sounds = [] \<rparr>]"

definition del_cat_item :: DiffItem where
  "del_cat_item = mkItem costume_delete ''Sprite1'' (Some costume_cat) None (JStr ''b7853f55'')"

section \<open>Line diff: properties\<close>

lemma mget_noNum: "noNum V \<Longrightarrow> mget V k \<noteq> Num n"
  by (auto simp: noNum_def mget_def split: option.splits)

lemma kstep_noNum:
  assumes "noNum V" and "kstep a b d k V trace = (x, y, V', trace')"
  shows "noNum V' \<and> (\<forall>n. x \<noteq> Num n)"
proof -
  define x0 where "x0 = (if k = - d \<or> (k \<noteq> d \<and> js_less (mget V (k - 1)) (mget V (k + 1)))
      then mget V (k + 1) else js_plus (mget V (k - 1)) 1)"
  have x0: "x0 \<noteq> Num n" for n
    using mget_noNum [OF assms(1)] unfolding x0_def
    by (cases "mget V (k - 1)") auto
  then have "slide_js a b x0 (js_minus x0 k) = (x0, js_minus x0 k)"
    by (cases x0) auto
  with assms(2) have "x = x0" "V' = V(k \<mapsto> x0)"
    by (auto simp: kstep_def Let_def x0_def)
  with x0 assms(1) show ?thesis by (auto simp: noNum_def)
qed

text \<open>Once \<open>V\<close> holds no number, no iteration of the inner loop returns.\<close>

lemma kloop_noNum:
  "noNum V \<Longrightarrow> \<exists>V' trace'. kloop a b d k V trace = Inr (V', trace') \<and> noNum V'"
proof (induction a b d k V trace rule: kloop.induct)
  case (1 a b d k V trace)
  show ?case
  proof (cases "k \<le> d")
    case False
    with "1.prems" show ?thesis by (subst kloop.simps) simp
  next
    case True
    obtain x y V1 t1 where st: "kstep a b d k V trace = (x, y, V1, t1)"
      by (cases "kstep a b d k V trace") auto
    from kstep_noNum [OF "1.prems" st] have nn: "noNum V1" and x: "\<forall>n. x \<noteq> Num n" by auto
    from x have nge: "\<not> js_ge x (Num (int (length a)))" by (cases x) auto
    from "1.IH" [OF True, of x "(y, V1, t1)" y "(V1, t1)" V1 t1] st nge nn
    obtain V' trace' where "kloop a b d (k + 2) V1 t1 = Inr (V', trace')" "noNum V'"
      by auto
    with True st nge show ?thesis by (subst kloop.simps) simp
  qed
qed

lemma dloop_noNum: "noNum V \<Longrightarrow> dloop a b d V trace = Inr []"
proof (induction a b d V trace rule: dloop.induct)
  case (1 a b d V trace)
  show ?case
  proof (cases "d \<le> int (length a) + int (length b)")
    case False
    then show ?thesis by (subst dloop.simps) simp
  next
    case True
    from kloop_noNum [OF "1.prems"] obtain V' trace'
      where k: "kloop a b d (- d) V trace = Inr (V', trace')" and nn: "noNum V'" by blast
    from "1.IH" [OF True k refl nn] True k show ?thesis by (subst dloop.simps) simp
  qed
qed

text \<open>
  The first iteration (\<open>d = 0\<close>, \<open>k = 0\<close>) takes the branch \<open>k === -d\<close> and reads \<open>V.get(1)\<close>,
  which was never set (the map is seeded with \<open>V.set(0, 0)\<close>): \<open>x\<close> is \<open>undefined\<close>, it
  overwrites \<open>V[0]\<close>, and from then on no entry of \<open>V\<close> is a number. The loops run to the end
  and the function returns the fallback \<open>[]\<close>, whatever the two sequences are.
\<close>

lemma myersDiff_empty: "myersDiff a b = Inr []"
proof -
  let ?V0 = "Map.empty(0 \<mapsto> Num 0) :: nummap"
  let ?t1 = "Map.empty(0 \<mapsto> Map.empty(0 \<mapsto> Undefined)) :: int \<rightharpoonup> nummap"
  have st: "kstep a b 0 0 ?V0 Map.empty = (Undefined, NaN, ?V0(0 \<mapsto> Undefined), ?t1)"
    by (simp add: kstep_def mget_def)
  have nn: "noNum (?V0(0 \<mapsto> Undefined))" by (simp add: noNum_def)
  have k0: "kloop a b 0 0 ?V0 Map.empty = Inr (?V0(0 \<mapsto> Undefined), ?t1)"
    by (subst kloop.simps, simp add: st) (subst kloop.simps, simp)
  have "dloop a b 0 ?V0 Map.empty = dloop a b 1 (?V0(0 \<mapsto> Undefined)) ?t1"
    by (subst dloop.simps) (simp add: k0)
  with dloop_noNum [OF nn] show ?thesis by (simp add: myersDiff_def)
qed

lemma diffText_empty: "diffText oldText newText = Inr \<lparr> added = 0, removed = 0, changes = [] \<rparr>"
  by (simp add: diffText_def myersDiff_empty)

text \<open>
  C4. For \<open>A = [when flag clicked, move (10) steps]\<close> and \<open>B = A\<close> followed by
  \<open>wait (1) seconds\<close> the line diff returns no operation at all: added, removed and kept
  are 0, while \<open>B\<close> has 3 lines and \<open>A\<close> has 2. The counting law added + kept = len(B),
  removed + kept = len(A) fails.
\<close>

theorem diffText_counts_fail:
  "diffText ''when flag clicked\<newline>move (10) steps''
            ''when flag clicked\<newline>move (10) steps\<newline>wait (1) seconds''
     = Inr \<lparr> added = 0, removed = 0, changes = [] \<rparr>
   \<and> myersDiff [''when flag clicked'', ''move (10) steps'']
                [''when flag clicked'', ''move (10) steps'', ''wait (1) seconds''] = Inr []
   \<and> length (split_lines ''when flag clicked\<newline>move (10) steps'') = 2
   \<and> length (split_lines ''when flag clicked\<newline>move (10) steps\<newline>wait (1) seconds'') = 3"
  by (simp add: diffText_empty myersDiff_empty split_lines_def)

section \<open>Script reconstruction: properties\<close>



lemma firstPass_terminates_id:
  assumes "wf (nextRel blocks)"
  shows "\<exists>n. \<forall>m \<ge> n. \<forall>nb. firstPass m blocks (Some i) nb \<noteq> None"
  using assms
proof (induction i rule: wf_induct_rule)
  case (less i)
  show ?case
  proof (cases "map_of blocks i")
    case None
    have "firstPass m blocks (Some i) nb \<noteq> None" if "m \<ge> 1" for m nb
      using that None by (cases m) auto
    then show ?thesis by blast
  next
    case (Some b)
    show ?thesis
    proof (cases "truthyId (next b)")
      case False
      have "firstPass m blocks (Some i) nb \<noteq> None" if "m \<ge> 2" for m nb
      proof -
        from that obtain m' where m: "m = Suc (Suc m')" by (metis Suc_le_D numeral_2_eq_2 Suc_le_mono)
        show ?thesis using Some False by (simp add: m)
      qed
      then show ?thesis by blast
    next
      case True
      then obtain j where j: "next b = Some j" by (cases "next b") auto
      with Some have "(j, i) \<in> nextRel blocks" by (auto simp: nextRel_def)
      from less.IH [OF this] obtain n where n: "\<forall>m \<ge> n. \<forall>nb. firstPass m blocks (Some j) nb \<noteq> None"
        by blast
      have "firstPass m blocks (Some i) nb \<noteq> None" if "m \<ge> Suc n" for m nb
      proof -
        from that obtain m' where m: "m = Suc m'" "m' \<ge> n" by (cases m) auto
        show ?thesis using Some j n m by (cases "i = []") auto
      qed
      then show ?thesis by blast
    qed
  qed
qed

lemma firstPass_terminates:
  assumes "wf (nextRel blocks)"
  shows "\<exists>n. \<forall>m \<ge> n. \<forall>nb. firstPass m blocks cur nb \<noteq> None"
proof (cases cur)
  case None
  have "firstPass m blocks None nb \<noteq> None" if "m \<ge> 1" for m nb
    using that by (cases m) auto
  with None show ?thesis by blast
next
  case (Some i)
  with firstPass_terminates_id [OF assms] show ?thesis by simp
qed



lemma wf_chain: "wf (nextRel chain_blocks)"
proof -
  have "nextRel chain_blocks = {(''b'', ''a'')}"
    by (auto simp: nextRel_def chain_blocks_def mkBlock_def split: if_splits)
  then show ?thesis by (simp add: wf_insert)
qed






section \<open>Script text: termination on well-formed block maps\<close>






section \<open>\<open>generateDiff\<close>: properties\<close>







lemma parse_dangling:
  "parseSpriteScripts (Suc (Suc fuel)) stack dangling_blocks (getTopLevelIds dangling_blocks)
     = Some (Inl TypeError)"
  by (simp add: parseSpriteScripts_def getTopLevelIds_def dangling_blocks_def mkBlock_def thenDo_def
      withChild_def refOf_def)

text \<open>
  C6. A project whose script has a block with a \<open>next\<close> that names a missing block:
  \<open>parseScriptWithBlocks\<close> reads \<open>block.inputs\<close> of the missing block, and the \<open>TypeError\<close>
  leaves \<open>generateDiff\<close>, for every call-stack size and as soon as the fuel lets the walk
  reach the missing block. The comparison is aborted instead of the script being cut.
\<close>

theorem generateDiff_dangling_next_raises:
  "\<forall>fuel stack. generateDiff (Suc (Suc fuel)) stack rnd_ex dangling_project dangling_project
     = Some (Inl TypeError)"
proof -
  have c: "collectionItems rnd_ex 0 ''Sprite1'' (Some (hd dangling_project)) (Some (hd dangling_project))
             = Inr ([], 0)"
    by (simp add: dangling_project_def mkTarget_def collectionItems_def diffCostumes_def
        diffSounds_def diffResources_def createResourceMap_def stableId_def costume_cat_def
        diffResourceMaps_def diffVariables_def diffLists_def diffRecords_def stringify_opt_def)
  show ?thesis
    using c
    by (simp add: generateDiff_def allTargetNames_def dangling_project_def mkTarget_def
        scriptItems_def parse_dangling thenDo_def Let_def)
qed

section \<open>Keyed collections: properties\<close>




lemma in_concat_map: "i \<in> set (concat (map f ks)) \<longleftrightarrow> (\<exists>k \<in> set ks. i \<in> set (f k))"
  by auto

lemma diffRecords_fingerprints:
  assumes "i \<in> set (diffRecords tdel tadd tedit oldRec newRec t)"
  shows "\<exists>k. di_fingerprint i = Some (JStr k) \<and> (k \<in> fst ` set oldRec \<or> k \<in> fst ` set newRec)"
proof -
  from assms consider
      k where "k \<in> set (map fst oldRec)"
        "i \<in> set (if k \<notin> set (map fst newRec)
                  then [mkItem tdel t (map_of oldRec k) None (JStr k)] else [])"
    | k where "k \<in> set (map fst newRec)"
        "i \<in> set (if k \<notin> set (map fst oldRec)
                  then [mkItem tadd t None (map_of newRec k) (JStr k)]
                  else if stringify_opt (map_of oldRec k) \<noteq> stringify_opt (map_of newRec k)
                  then [mkItem tedit t (map_of oldRec k) (map_of newRec k) (JStr k)]
                  else [])"
    unfolding diffRecords_def set_append Un_iff in_concat_map by blast
  then show ?thesis
  proof cases
    case 1
    then have "di_fingerprint i = Some (JStr k)" by (simp add: mkItem_def split: if_splits)
    with 1(1) show ?thesis by auto
  next
    case 2
    then have "di_fingerprint i = Some (JStr k)" by (simp add: mkItem_def split: if_splits)
    with 2(1) show ?thesis by auto
  qed
qed



lemma js_same_sym: "js_same a b \<Longrightarrow> js_same b a"
  by (cases a; cases b) auto






lemma mapGet_absent:
  "list_all (\<lambda>kv. \<not> js_same k (fst kv)) m \<Longrightarrow> js_same k k \<Longrightarrow> mapGet m k = None"
  by (induction m) (auto dest: js_same_sym)










section \<open>Replay: properties\<close>

lemma findIndex_None_iff: "findIndex P xs = None \<longleftrightarrow> (\<forall>x \<in> set xs. \<not> P x)"
  by (induction xs) auto

lemma findIndex_Some:
  "findIndex P xs = Some i \<Longrightarrow> i < length xs \<and> P (xs ! i) \<and> (\<forall>j < i. \<not> P (xs ! j))"
proof (induction xs arbitrary: i)
  case Nil
  then show ?case by simp
next
  case (Cons x xs)
  show ?case
  proof (cases "P x")
    case True
    with Cons.prems show ?thesis by simp
  next
    case False
    with Cons.prems obtain i' where i': "findIndex P xs = Some i'" "i = Suc i'" by auto
    from Cons.IH [OF i'(1)] False i'(2) show ?thesis
      by (auto simp: less_Suc_eq_0_disj)
  qed
qed

text \<open>
  When no target of the copy has the item's target name, the step appends the empty shell
  of that name if the item is a script, block, costume or sound addition (a deletion of
  these when replaying in reverse) and leaves the targets as they are otherwise; in both
  cases the item itself is not applied.
\<close>

lemma replayItem_missing_target:
  assumes "\<forall>t \<in> set targets. t_name t \<noteq> di_targetName item"
  shows "replayItem isReverse targets item =
           Inr (if createsTarget isReverse (di_type item)
                then targets @ [shell (di_targetName item)] else targets)"
proof -
  from assms have "findIndex (\<lambda>t. t_name t = di_targetName item) targets = None"
    by (simp add: findIndex_None_iff)
  then show ?thesis by (simp add: replayItem_def)
qed

text \<open>
  C9. The base project has the stage only. The \<open>costume-add\<close> item for the missing target
  \<open>Sprite1\<close> makes the replay create the target, but the iteration then ends with
  \<open>continue\<close>: the costume that the target was created for is not in the target's costume
  list, which stays empty.
\<close>

theorem replay_add_to_missing_target_not_applied:
  "replay False stage_only [add_cat_item] = Inr (stage_only @ [shell ''Sprite1''])
   \<and> t_costumes (shell ''Sprite1'') = []
   \<and> costume_cat \<notin> set (t_costumes (shell ''Sprite1''))"
  by (simp add: replayItem_def stage_only_def add_cat_item_def mkItem_def createsTarget_def
      shell_def)

section \<open>The two script walks on block maps without cycles\<close>






section \<open>Script fingerprints and block ids\<close>

lemma parse_ax:
  "parseTopIds (Suc (Suc (Suc fuel))) stack tree_ax [''a''] =
     Some (Inr [\<lparr> text = trim (blockLine [''a'', ''x''] (- 1) (the (map_of tree_ax ''a''))
                              @ blockLine [''a'', ''x''] (- 1) (the (map_of tree_ax ''x''))),
                   fingerprint = generateFingerprint
                      (trim (blockLine [''a'', ''x''] (- 1) (the (map_of tree_ax ''a''))
                              @ blockLine [''a'', ''x''] (- 1) (the (map_of tree_ax ''x'')))),
                   st_blocks = [blockTextOf [''a'', ''x''] (- 1) (the (map_of tree_ax ''a'')),
                                blockTextOf [''a'', ''x''] (- 1) (the (map_of tree_ax ''x''))],
                   st_original = tree_ax, topId = ''a'' \<rparr>])"
  by (simp add: tree_ax_def refOf_def withChild_def thenDo_def)

lemma fp_ax:
  "generateFingerprint
      (trim (blockLine [''a'', ''x''] (- 1) (the (map_of tree_ax ''a''))
              @ blockLine [''a'', ''x''] (- 1) (the (map_of tree_ax ''x'')))) = ''4b615c75''"
  by code_simp

lemma parse_pq:
  "parseTopIds (Suc (Suc (Suc fuel))) stack tree_pq [''p''] =
     Some (Inr [\<lparr> text = trim (blockLine [''p'', ''q''] (- 1) (the (map_of tree_pq ''p''))
                              @ blockLine [''p'', ''q''] (- 1) (the (map_of tree_pq ''q''))),
                   fingerprint = generateFingerprint
                      (trim (blockLine [''p'', ''q''] (- 1) (the (map_of tree_pq ''p''))
                              @ blockLine [''p'', ''q''] (- 1) (the (map_of tree_pq ''q'')))),
                   st_blocks = [blockTextOf [''p'', ''q''] (- 1) (the (map_of tree_pq ''p'')),
                                blockTextOf [''p'', ''q''] (- 1) (the (map_of tree_pq ''q''))],
                   st_original = tree_pq, topId = ''p'' \<rparr>])"
  by (simp add: tree_pq_def refOf_def withChild_def thenDo_def)

lemma fp_pq:
  "generateFingerprint
      (trim (blockLine [''p'', ''q''] (- 1) (the (map_of tree_pq ''p''))
              @ blockLine [''p'', ''q''] (- 1) (the (map_of tree_pq ''q'')))) = ''1866a85e''"
  by code_simp

lemma text_ax:
  "trim (blockLine [''a'', ''x''] (- 1) (the (map_of tree_ax ''a''))
          @ blockLine [''a'', ''x''] (- 1) (the (map_of tree_ax ''x'')))
     = ''event_whenflagclicked '' @ [CHR 0x0A] @ ''data_showvariable {''
         @ quote ''VARIABLE'' @ '':['' @ quote ''id'' @ '','' @ quote ''var1'' @ '']}''"
  by code_simp

lemma text_pq:
  "trim (blockLine [''p'', ''q''] (- 1) (the (map_of tree_pq ''p''))
          @ blockLine [''p'', ''q''] (- 1) (the (map_of tree_pq ''q'')))
     = ''event_whenflagclicked '' @ [CHR 0x0A] @ ''data_showvariable {''
         @ quote ''VARIABLE'' @ '':['' @ quote ''x'' @ '','' @ quote ''var1'' @ '']}''"
  by code_simp

lemma tree_tops: "getTopLevelIds tree_ax = [''a'']" "getTopLevelIds tree_pq = [''p'']"
  by (simp_all add: getTopLevelIds_def tree_ax_def tree_pq_def)

text \<open>
  C2. The two maps hold the same tree under two id namespaces, but their scripts get
  different fingerprints: the text of a block is made independent of ids by replacing every
  quoted block id by \<open>"id"\<close>, which in the first map also replaces the name of the variable
  (it equals a block id there) and in the second map leaves it as it is.
\<close>

theorem script_fingerprint_depends_on_block_ids:
  "(\<forall>fuel stack. \<exists>s.
       parseSpriteScripts (Suc (Suc (Suc fuel))) stack tree_ax (getTopLevelIds tree_ax)
         = Some (Inr [s]) \<and> topId s = ''a''
       \<and> text s = ''event_whenflagclicked '' @ [CHR 0x0A] @ ''data_showvariable {''
            @ quote ''VARIABLE'' @ '':['' @ quote ''id'' @ '','' @ quote ''var1'' @ '']}''
       \<and> fingerprint s = ''4b615c75'')
   \<and> (\<forall>fuel stack. \<exists>s.
       parseSpriteScripts (Suc (Suc (Suc fuel))) stack tree_pq (getTopLevelIds tree_pq)
         = Some (Inr [s]) \<and> topId s = ''p''
       \<and> text s = ''event_whenflagclicked '' @ [CHR 0x0A] @ ''data_showvariable {''
            @ quote ''VARIABLE'' @ '':['' @ quote ''x'' @ '','' @ quote ''var1'' @ '']}''
       \<and> fingerprint s = ''1866a85e'')"
  apply (simp add: parseSpriteScripts_def tree_tops parse_ax parse_pq fp_ax fp_pq thenDo_def
      del: parseTopIds.simps)
  apply (simp add: text_ax text_pq)
  done

section \<open>The diff of a document against itself\<close>



















section \<open>Script matching: properties\<close>

lemma map_of_scriptMap_aux:
  "map_of (foldl (\<lambda>m s. AList.update (fingerprint s) s m) m0 ss) fp = Some s
   \<Longrightarrow> fingerprint s = fp \<or> map_of m0 fp = Some s"
  by (induction ss arbitrary: m0) (fastforce simp: update_conv' split: if_splits)+

lemma map_of_scriptMap: "map_of (scriptMap ss) fp = Some s \<Longrightarrow> fingerprint s = fp"
  using map_of_scriptMap_aux [of "[]" ss fp s] by (simp add: scriptMap_def)

lemma exactStep_pairs:
  assumes "exactStep (m, uo, un, nm) (fp, os) = (m', uo', un', nm')"
    and "\<forall>(a, b) \<in> set m. fingerprint a = fingerprint b"
    and "\<forall>k v. map_of nm k = Some v \<longrightarrow> fingerprint v = k"
    and "fingerprint os = fp"
  shows "(\<forall>(a, b) \<in> set m'. fingerprint a = fingerprint b)
       \<and> (\<forall>k v. map_of nm' k = Some v \<longrightarrow> fingerprint v = k)"
  using assms by (auto split: option.splits if_splits simp: delete_conv')

lemma exactFold_pairs:
  assumes "foldl exactStep (m, uo, un, nm) es = (m', uo', un', nm')"
    and "\<forall>(a, b) \<in> set m. fingerprint a = fingerprint b"
    and "\<forall>k v. map_of nm k = Some v \<longrightarrow> fingerprint v = k"
    and "\<forall>(k, v) \<in> set es. fingerprint v = k"
  shows "\<forall>(a, b) \<in> set m'. fingerprint a = fingerprint b"
  using assms
proof (induction es arbitrary: m uo un nm)
  case Nil
  then show ?case by simp
next
  case (Cons e es)
  obtain fp os where e: "e = (fp, os)" by (cases e)
  obtain m1 uo1 un1 nm1 where st: "exactStep (m, uo, un, nm) (fp, os) = (m1, uo1, un1, nm1)"
    by (cases "exactStep (m, uo, un, nm) (fp, os)") auto
  from Cons.prems(4) e have fp: "fingerprint os = fp" by simp
  from exactStep_pairs [OF st Cons.prems(2) Cons.prems(3) fp]
  have inv: "\<forall>(a, b) \<in> set m1. fingerprint a = fingerprint b"
    "\<forall>k v. map_of nm1 k = Some v \<longrightarrow> fingerprint v = k" by blast+
  from Cons.prems(1) e st have "foldl exactStep (m1, uo1, un1, nm1) es = (m', uo', un', nm')"
    by simp
  from Cons.IH [OF this inv] Cons.prems(4) show ?case by simp
qed

lemma exactPhase_pairs:
  assumes "exactPhase olds news = (m, uo, un, nm)"
  shows "\<forall>(a, b) \<in> set m. fingerprint a = fingerprint b"
proof -
  have 1: "\<forall>k v. map_of (scriptMap news) k = Some v \<longrightarrow> fingerprint v = k"
    using map_of_scriptMap by blast
  have 2: "\<forall>(k, v) \<in> set (scriptMap olds). fingerprint v = k"
  proof -
    have "distinct (map fst (scriptMap olds))"
      unfolding scriptMap_def
      by (induction olds rule: rev_induct) (simp_all add: distinct_update)
    then show ?thesis using map_of_scriptMap [of olds] by (auto dest: map_of_eq_Some_iff [THEN iffD2])
  qed
  show ?thesis
    using exactFold_pairs [OF assms [unfolded exactPhase_def] _ 1 2] by simp
qed

lemma heuristicStep_pairs:
  assumes "heuristicStep (m, un) os = (m', un')" and "p \<in> set m'"
  shows "p \<in> set m \<or> similar (fst p) (snd p)"
  using assms by (auto split: option.splits simp: find_Some_iff)

lemma heuristicFold_pairs:
  assumes "foldl heuristicStep (m, un) uo = (m', un')" and "p \<in> set m'"
  shows "p \<in> set m \<or> similar (fst p) (snd p)"
  using assms
proof (induction uo arbitrary: m un)
  case Nil
  then show ?case by simp
next
  case (Cons os uo)
  obtain m1 un1 where st: "heuristicStep (m, un) os = (m1, un1)"
    by (cases "heuristicStep (m, un) os")
  with Cons.prems have "foldl heuristicStep (m1, un1) uo = (m', un')" by simp
  from Cons.IH [OF this Cons.prems(2)] heuristicStep_pairs [OF st] show ?case by blast
qed

text \<open>
  C10. A pair of scripts with different fingerprints is matched only by the fallback, and
  then the first 20 characters of the two rendered texts are identical and the ratio of the
  shorter to the longer text length exceeds 0.7. So two scripts whose texts differ within the
  first 20 characters are never paired by the fallback.
\<close>

theorem fallback_requires_common_start:
  assumes "(oldScript, newScript) \<in> set (matchedScripts (matchScripts oldScripts newScripts))"
    and "fingerprint oldScript \<noteq> fingerprint newScript"
  shows "take 20 (text oldScript) = take 20 (text newScript)
       \<and> real (min (length (text oldScript)) (length (text newScript)))
           / real (max (length (text oldScript)) (length (text newScript))) > 0.7"
proof -
  obtain m1 uo un1 nm where ex: "exactPhase oldScripts newScripts = (m1, uo, un1, nm)"
    by (cases "exactPhase oldScripts newScripts") auto
  obtain m un where h: "foldl heuristicStep (m1, un1) uo = (m, un)"
    by (cases "foldl heuristicStep (m1, un1) uo")
  from assms(1) ex h have "(oldScript, newScript) \<in> set m"
    by (simp add: matchScripts_def)
  from heuristicFold_pairs [OF h this] exactPhase_pairs [OF ex] assms(2)
  have "similar oldScript newScript" by auto
  then show ?thesis
    by (simp add: similar_def hasCommonStart_def lengthRatio_def Let_def)
qed

theorem fallback_requires_common_start_witness:
  "(ex_old, ex_new) \<in> set (matchedScripts (matchScripts [ex_old] [ex_new]))
   \<and> fingerprint ex_old \<noteq> fingerprint ex_new
   \<and> take 20 (text ex_old) = take 20 (text ex_new)
   \<and> real (min (length (text ex_old)) (length (text ex_new)))
        / real (max (length (text ex_old)) (length (text ex_new))) > 0.7"
proof -
  have h1: "(ex_old, ex_new) \<in> set (matchedScripts (matchScripts [ex_old] [ex_new]))"
    by (simp add: matchScripts_def exactPhase_def scriptMap_def ex_old_def ex_new_def mkScript_def
        similar_def lengthRatio_def hasCommonStart_def)
  have h2: "fingerprint ex_old \<noteq> fingerprint ex_new"
    by (simp add: ex_old_def ex_new_def mkScript_def)
  from fallback_requires_common_start [OF h1 h2] h1 h2 show ?thesis by blast
qed

text \<open>
  C7. With two old scripts of one fingerprint and one new script of that fingerprint, the
  result holds a single matched pair and both unmatched lists are empty: the first old
  script is in no part of the result, so the result is not a partition of the old scripts.
\<close>

theorem matchScripts_drops_duplicate_fingerprint:
  "matchScripts [dup_old1, dup_old2] [dup_new]
     = \<lparr> matchedScripts = [(dup_old2, dup_new)],
         unmatchedOldScripts = [], unmatchedNewScripts = [] \<rparr>
   \<and> dup_old1 \<notin> fst ` set (matchedScripts (matchScripts [dup_old1, dup_old2] [dup_new]))
   \<and> dup_old1 \<notin> set (unmatchedOldScripts (matchScripts [dup_old1, dup_old2] [dup_new]))"
  by (simp add: matchScripts_def exactPhase_def scriptMap_def dup_old1_def dup_old2_def
      dup_new_def mkScript_def)

section \<open>Replaying the diff of two documents\<close>


end
